theory Spec2Isabelle
  imports Complex_Main "HOL-Library.Product_Lexorder"
begin

section \<open>pyDeepInsight: the image transformer\<close>

text \<open>
  A shallow embedding of \<^verbatim>\<open>pyDeepInsight/image_transformer.py\<close>.

  Conventions of the model.
  \<^item> A float is a real number; a value of type \<open>fl\<close> is a float that may be undefined:
    \<open>None\<close> stands for NaN (the result of \<open>0/0\<close>) and for the content of memory that
    \<open>np.empty\<close> leaves uninitialised. The arithmetic on them is the exact one: rounding and
    overflow of binary64 are not modelled, and what is proved about computed values is
    stated at concrete inputs only.
  \<^item> An exception is a value \<open>Inl e\<close> of a sum type; errors raised with an f-string carry
    their message.
  \<^item> An n-dimensional array is its shape and its elements in row-major order.
  \<^item> An image dimension is a natural number.
\<close>

subsection \<open>Errors, floats, arrays\<close>

datatype error =
    ValueError string
  | KeyError string
  | TypeError string
  | IndexError
  | ExternalError string

type_synonym fl = "real option"

record 'a ndarray =
  shape :: "nat list"
  data :: "'a list"

text \<open>The f-string fragment \<^verbatim>\<open>'{s}'\<close>: the value between single quotes.\<close>

definition quoted :: "string \<Rightarrow> string" where
  "quoted s = [CHR 0x27] @ s @ [CHR 0x27]"

text \<open>A list comprehension whose element expressions may raise: the first error wins.\<close>

fun collect :: "(error + 'a) list \<Rightarrow> error + 'a list" where
  "collect [] = Inr []"
| "collect (Inl e # rs) = Inl e"
| "collect (Inr v # rs) = (case collect rs of Inl e \<Rightarrow> Inl e | Inr vs \<Rightarrow> Inr (v # vs))"

text \<open>\<^verbatim>\<open>np.unique\<close> of a one-dimensional array: the distinct values in ascending order.\<close>

definition np_unique :: "'a::linorder list \<Rightarrow> 'a list" where
  "np_unique xs = sort (remdups xs)"

text \<open>
  \<^verbatim>\<open>np.mean\<close> and \<^verbatim>\<open>np.sum\<close> of a one-dimensional selection, in exact arithmetic; the mean
  of no element is NaN.
\<close>

definition np_mean :: "real list \<Rightarrow> fl" where
  "np_mean xs = (if xs = [] then None else Some (sum_list xs / real (length xs)))"

definition np_sum :: "real list \<Rightarrow> fl" where
  "np_sum xs = Some (sum_list xs)"

text \<open>
  Boolean-mask indexing \<^verbatim>\<open>a[mask]\<close>: numpy raises IndexError when the mask and the
  array differ in length.
\<close>

definition mask_select :: "'a list \<Rightarrow> bool list \<Rightarrow> error + 'a list" where
  "mask_select a msk =
     (if length msk \<noteq> length a then Inl IndexError
      else Inr (map fst (filter snd (zip a msk))))"

subsection \<open>\<^verbatim>\<open>MRepImageTransformer.prediction_reduction\<close>\<close>

text \<open>
  The scores and the index are numpy arrays, the scores of any element type \<open>'a\<close>. The
  reductions \<^verbatim>\<open>np.mean\<close> and \<^verbatim>\<open>np.sum\<close> are numpy's, and so is their arithmetic (the
  rounding of binary64, the wrap-around of int64): they are the parameters \<open>mean_of\<close> and
  \<open>sum_of\<close>, from the selected scores to the reduced score.
\<close>

definition reduce_with :: "('a list \<Rightarrow> 'b) \<Rightarrow> 'a list \<Rightarrow> int list \<Rightarrow> int \<Rightarrow> error + 'b" where
  "reduce_with f y_hat index k =
     (case mask_select y_hat (map (\<lambda>i. i = k) index) of
        Inl e \<Rightarrow> Inl e
      | Inr sel \<Rightarrow> Inr (f sel))"

definition prediction_reduction ::
  "('a list \<Rightarrow> 'b) \<Rightarrow> ('a list \<Rightarrow> 'b) \<Rightarrow> 'a list \<Rightarrow> int list \<Rightarrow> string \<Rightarrow> error + 'b list" where
  "prediction_reduction mean_of sum_of y_hat index reduction =
     (let index_set = np_unique index in
      if reduction = ''mean'' then
        collect (map (reduce_with mean_of y_hat index) index_set)
      else if reduction = ''sum'' then
        collect (map (reduce_with sum_of y_hat index) index_set)
      else Inl (ValueError (''reduction method '' @ quoted reduction @ '' not valid'')))"

subsection \<open>Coordinate scaler\<close>

text \<open>
  Projected feature positions are an \<open>n \<times> 2\<close> array of finite floats, one row per feature.
  \<^verbatim>\<open>np.empty(0)\<close>, the value of \<^verbatim>\<open>_xrot\<close> before any fit, is the empty list.
\<close>

type_synonym position = "(real \<times> real) list"

type_synonym px_size = "nat \<times> nat"

text \<open>
  Float division as numpy performs it: a zero divisor does not raise, it yields a value
  that is not a finite number (NaN for \<open>0/0\<close>).
\<close>

definition np_divide :: "real \<Rightarrow> real \<Rightarrow> fl" where
  "np_divide x y = (if y = 0 then None else Some (x / y))"

definition np_multiply :: "fl \<Rightarrow> real \<Rightarrow> fl" where
  "np_multiply u d = (case u of None \<Rightarrow> None | Some x \<Rightarrow> Some (x * d))"

text \<open>\<^verbatim>\<open>coords.min(axis=0)\<close> raises ValueError on an array without rows.\<close>

definition scale_coordinates :: "position \<Rightarrow> px_size \<Rightarrow> error + (fl \<times> fl) list" where
  "scale_coordinates coords dim_max =
     (if coords = [] then
        Inl (ValueError ''zero-size array to reduction operation minimum which has no identity'')
      else
        let data_min = (Min (set (map fst coords)), Min (set (map snd coords)));
            data_max = (Max (set (map fst coords)), Max (set (map snd coords)));
            std = map (\<lambda>(x, y). (np_divide (x - fst data_min) (fst data_max - fst data_min),
                                  np_divide (y - snd data_min) (snd data_max - snd data_min)))
                      coords;
            scaled = map (\<lambda>(u, v). (np_multiply u (real (fst dim_max)),
                                     np_multiply v (real (snd dim_max))))
                         std
        in Inr scaled)"

subsection \<open>Discretization by binning\<close>

text \<open>
  \<^verbatim>\<open>np.floor(scaled).astype(int)\<close>. The integer that the cast yields for NaN depends on
  the platform; it is the parameter \<open>nan_int\<close>.
\<close>

definition floor_astype_int :: "int \<Rightarrow> fl \<Rightarrow> int" where
  "floor_astype_int nan_int v = (case v of None \<Rightarrow> nan_int | Some x \<Rightarrow> \<lfloor>x\<rfloor>)"

definition coordinate_binning :: "int \<Rightarrow> position \<Rightarrow> px_size \<Rightarrow> error + (int \<times> int) list" where
  "coordinate_binning nan_int position px_size =
     (case scale_coordinates position px_size of
        Inl e \<Rightarrow> Inl e
      | Inr scaled \<Rightarrow>
          let px_binned = map (\<lambda>(u, v). (floor_astype_int nan_int u, floor_astype_int nan_int v))
                              scaled;
              px_binned = map (\<lambda>(r, c). (if r = int (fst px_size) then int (fst px_size) - 1 else r, c))
                              px_binned;
              px_binned = map (\<lambda>(r, c). (r, if c = int (snd px_size) then int (snd px_size) - 1 else c))
                              px_binned
          in Inr px_binned)"

subsection \<open>Pixel centroids\<close>

text \<open>
  \<^verbatim>\<open>px_map = np.empty((np.prod(px_size), 2))\<close> is uninitialised; the nested loop writes row
  \<^verbatim>\<open>i * px_size[0] + j\<close> for every \<open>i < px_size[0]\<close>, \<open>j < px_size[1]\<close>, and numpy raises
  IndexError for a row index past the end. A row that the loop never writes keeps the
  value \<open>None\<close>: what it holds in the code is arbitrary, and nothing is proved from such a
  row.
\<close>

fun px_map_fill :: "nat \<Rightarrow> (nat \<times> nat) list \<Rightarrow> (fl \<times> fl) list \<Rightarrow> error + (fl \<times> fl) list" where
  "px_map_fill h [] px_map = Inr px_map"
| "px_map_fill h ((i, j) # ijs) px_map =
     (if i * h + j < length px_map
      then px_map_fill h ijs (px_map[i * h + j := (Some (real i), Some (real j))])
      else Inl IndexError)"

definition np_add :: "fl \<Rightarrow> real \<Rightarrow> fl" where
  "np_add u d = (case u of None \<Rightarrow> None | Some x \<Rightarrow> Some (x + d))"

definition calculate_pixel_centroids :: "px_size \<Rightarrow> error + (fl \<times> fl) list" where
  "calculate_pixel_centroids px_size =
     (let px_map = replicate (fst px_size * snd px_size) (None, None);
          loop = concat (map (\<lambda>i. map (\<lambda>j. (i, j)) [0..<snd px_size]) [0..<fst px_size])
      in case px_map_fill (fst px_size) loop px_map of
           Inl e \<Rightarrow> Inl e
         | Inr px_map \<Rightarrow> Inr (map (\<lambda>(x, y). (np_add x (1 / 2), np_add y (1 / 2))) px_map))"

subsection \<open>Distances, clustering and the assignment solvers\<close>

definition euclidean :: "fl \<times> fl \<Rightarrow> fl \<times> fl \<Rightarrow> fl" where
  "euclidean p q =
     (case (fst p, snd p, fst q, snd q) of
        (Some a, Some b, Some c, Some d) \<Rightarrow> Some (sqrt ((a - c)\<^sup>2 + (b - d)\<^sup>2))
      | _ \<Rightarrow> None)"

definition cdist :: "(fl \<times> fl) list \<Rightarrow> (fl \<times> fl) list \<Rightarrow> fl list list" where
  "cdist xa xb = map (\<lambda>p. map (euclidean p) xb) xa"

text \<open>\<^verbatim>\<open>dist**2\<close>, elementwise.\<close>

definition squared :: "fl list list \<Rightarrow> fl list list" where
  "squared dist' = map (map (map_option (\<lambda>d. d\<^sup>2))) dist'"

text \<open>
  What the transformer calls but does not define is a parameter of the model:
  \<^item> \<open>nan_as_int\<close>: the integer cast of NaN;
  \<^item> \<open>linear_sum_assignment\<close>: scipy's solver, from a cost matrix to the column assigned to
    each row (the second component of its result);
  \<^item> \<open>asymmetric_greedy_search\<close>: the heuristic solver of \<^verbatim>\<open>utils\<close>, called with
    \<^verbatim>\<open>shuffle=True, minimize=True\<close>, likewise;
  \<^item> \<open>bisecting_kmeans\<close>: scikit-learn's \<^verbatim>\<open>BisectingKMeans(n_clusters=k).fit\<close>, from the
    points and \<open>k\<close> to the labels and the cluster centres;
  \<^item> \<open>align\<close>: the geometry of \<^verbatim>\<open>fit\<close> (\<^verbatim>\<open>ConvexHull\<close>, \<^verbatim>\<open>_minimum_bounding_rectangle\<close> and
    the rotation of the projected points), from the projected to the rotated positions.
\<close>

record env =
  nan_as_int :: int
  linear_sum_assignment :: "fl list list \<Rightarrow> error + nat list"
  asymmetric_greedy_search :: "fl list list \<Rightarrow> error + nat list"
  bisecting_kmeans :: "(fl \<times> fl) list \<Rightarrow> int \<Rightarrow> error + (nat list \<times> (fl \<times> fl) list)"
  align :: "position \<Rightarrow> error + position"

definition clustered_cdist ::
  "env \<Rightarrow> (fl \<times> fl) list \<Rightarrow> (fl \<times> fl) list \<Rightarrow> int \<Rightarrow> error + (fl list list \<times> nat list)" where
  "clustered_cdist ev positions centroids k =
     (case bisecting_kmeans ev positions k of
        Inl e \<Rightarrow> Inl e
      | Inr (cl_labels, cl_centers) \<Rightarrow> Inr (cdist cl_centers centroids, cl_labels))"

definition assignment_preprocessing ::
  "env \<Rightarrow> position \<Rightarrow> px_size \<Rightarrow> int \<Rightarrow> error + (fl list list \<times> nat list)" where
  "assignment_preprocessing ev position px_size max_assignments =
     (case scale_coordinates position px_size of
        Inl e \<Rightarrow> Inl e
      | Inr scaled \<Rightarrow>
          (case calculate_pixel_centroids px_size of
             Inl e \<Rightarrow> Inl e
           | Inr px_centers \<Rightarrow>
               if int (length scaled) > max_assignments
               then clustered_cdist ev scaled px_centers max_assignments
               else Inr (cdist scaled px_centers, [0..<length scaled])))"

text \<open>
  The solution is an array of numpy integers: \<^verbatim>\<open>%\<close> and \<^verbatim>\<open>//\<close> by zero give 0 (with a
  warning) and do not raise.
\<close>

definition np_mod :: "nat \<Rightarrow> nat \<Rightarrow> nat" where
  "np_mod k h = (if h = 0 then 0 else k mod h)"

definition np_floor_divide :: "nat \<Rightarrow> nat \<Rightarrow> nat" where
  "np_floor_divide k h = (if h = 0 then 0 else k div h)"

text \<open>One iteration of the loop of \<^verbatim>\<open>assignment_postprocessing\<close>.\<close>

definition assign_pixel :: "px_size \<Rightarrow> nat list \<Rightarrow> nat list \<Rightarrow> nat \<Rightarrow> error + (int \<times> int)" where
  "assign_pixel px_size solution labels i =
     (if i < length labels then
        let j = labels ! i in
        if j < length solution then
          let ki = solution ! j;
              xi = np_mod ki (fst px_size);
              yi = np_floor_divide ki (fst px_size)
          in Inr (int yi, int xi)
        else Inl IndexError
      else Inl IndexError)"

definition assignment_postprocessing ::
  "position \<Rightarrow> px_size \<Rightarrow> nat list \<Rightarrow> nat list \<Rightarrow> error + (int \<times> int) list" where
  "assignment_postprocessing position px_size solution labels =
     collect (map (assign_pixel px_size solution labels) [0..<length position])"

definition coordinate_optimal_assignment ::
  "env \<Rightarrow> position \<Rightarrow> px_size \<Rightarrow> error + (int \<times> int) list" where
  "coordinate_optimal_assignment ev position px_size =
     (let k = int (fst px_size * snd px_size) in
      case assignment_preprocessing ev position px_size k of
        Inl e \<Rightarrow> Inl e
      | Inr (dist', labels) \<Rightarrow>
          (case linear_sum_assignment ev (squared dist') of
             Inl e \<Rightarrow> Inl e
           | Inr lsa \<Rightarrow> assignment_postprocessing position px_size lsa labels))"

definition coordinate_heuristic_assignment ::
  "env \<Rightarrow> position \<Rightarrow> px_size \<Rightarrow> error + (int \<times> int) list" where
  "coordinate_heuristic_assignment ev position px_size =
     (let k = int (fst px_size * snd px_size) - 1 in
      case assignment_preprocessing ev position px_size k of
        Inl e \<Rightarrow> Inl e
      | Inr (dist', labels) \<Rightarrow>
          (case asymmetric_greedy_search ev (squared dist') of
             Inl e \<Rightarrow> Inl e
           | Inr lsa \<Rightarrow> assignment_postprocessing position px_size lsa labels))"

subsection \<open>The transformer: construction, fit and resize\<close>

datatype discretization = Binning | Optimal_assignment | Heuristic_assignment

definition DISCRETIZATION_OPTIONS :: "(string \<times> discretization) list" where
  "DISCRETIZATION_OPTIONS =
     [(''bin'', Binning),
      (''assignment'', Optimal_assignment),
      (''lsa'', Optimal_assignment),
      (''ags'', Heuristic_assignment)]"

text \<open>\<^verbatim>\<open>cls.DISCRETIZATION_OPTIONS[method]\<close> raises \<^verbatim>\<open>KeyError(method)\<close> for a missing key.\<close>

definition parse_discretization :: "string \<Rightarrow> error + discretization" where
  "parse_discretization method =
     (case map_of DISCRETIZATION_OPTIONS method of
        None \<Rightarrow> Inl (KeyError method)
      | Some m \<Rightarrow> Inr m)"

text \<open>The call \<^verbatim>\<open>self._dm(position, px_size)\<close> of the method that was looked up.\<close>

fun call_dm :: "env \<Rightarrow> discretization \<Rightarrow> position \<Rightarrow> px_size \<Rightarrow> error + (int \<times> int) list" where
  "call_dm ev Binning position px_size = coordinate_binning (nan_as_int ev) position px_size"
| "call_dm ev Optimal_assignment position px_size = coordinate_optimal_assignment ev position px_size"
| "call_dm ev Heuristic_assignment position px_size = coordinate_heuristic_assignment ev position px_size"

datatype pixels_arg = PxInt nat | PxTuple "nat \<times> nat"

fun parse_pixels :: "pixels_arg \<Rightarrow> px_size" where
  "parse_pixels (PxInt n) = (n, n)"
| "parse_pixels (PxTuple p) = p"

text \<open>
  The argument \<^verbatim>\<open>feature_extractor\<close> of the constructor: a string, an object with a bound
  method \<^verbatim>\<open>fit_transform\<close> (of an arbitrary type \<open>'p\<close>), or anything else.
\<close>

datatype 'p feature_extractor = FeStr string | FeInstance 'p | FeOther

text \<open>
  The projector \<^verbatim>\<open>_fe\<close>: one of the three scikit-learn objects that the deprecated string
  form creates (\<^verbatim>\<open>TSNE(n_components=2, metric='cosine')\<close>, \<^verbatim>\<open>PCA(n_components=2)\<close>,
  \<^verbatim>\<open>KernelPCA(n_components=2, kernel='rbf')\<close>), or the object that was passed.
\<close>

datatype 'p projector = TSNE | PCA | KernelPCA | Instance 'p

text \<open>
  \<^verbatim>\<open>str.casefold\<close>, as far as the comparison with the three names can tell: the capital
  letters A to Z become small letters. (A character of an Isabelle string is a code point
  below 256; of these, the others that \<^verbatim>\<open>casefold\<close> changes become characters that occur in
  none of the names.)
\<close>

definition casefold :: "string \<Rightarrow> string" where
  "casefold s = map (\<lambda>c. let n = (of_char c :: nat) in if 65 \<le> n \<and> n \<le> 90 then char_of (n + 32) else c) s"

text \<open>\<^verbatim>\<open>_parse_feature_extractor\<close>. The deprecation warning of the string form is not an error.\<close>

definition parse_feature_extractor :: "'p feature_extractor \<Rightarrow> error + 'p projector" where
  "parse_feature_extractor feature_extractor =
     (case feature_extractor of
        FeStr name \<Rightarrow>
          (let fe = casefold name in
           if fe = casefold ''tsne'' then Inr TSNE
           else if fe = casefold ''pca'' then Inr PCA
           else if fe = casefold ''kpca'' then Inr KernelPCA
           else Inl (ValueError (''feature_extractor '' @ quoted name @ '' not valid'')))
      | FeInstance p \<Rightarrow> Inr (Instance p)
      | FeOther \<Rightarrow>
          Inl (TypeError (''Parameter feature_extractor is not a string nor has method ''
                 @ [CHR 0x22] @ ''fit_transform'' @ [CHR 0x22])))"

text \<open>
  The instance attributes. The method \<^verbatim>\<open>fit_transform\<close> of the projector is passed to \<open>fit\<close>
  as a function that returns the projected positions (or an error) and the projector
  after the call.
\<close>

record 'p image_transformer =
  it_fe :: 'p
  it_dm :: discretization
  it_pixels :: px_size
  it_xrot :: position
  it_coords :: "(int \<times> int) list"

text \<open>\<^verbatim>\<open>__init__\<close>: the feature extractor is parsed first, then the discretization key.\<close>

definition init ::
  "'p feature_extractor \<Rightarrow> string \<Rightarrow> pixels_arg \<Rightarrow> error + 'p projector image_transformer" where
  "init feature_extractor discretization pixels =
     (case parse_feature_extractor feature_extractor of
        Inl e \<Rightarrow> Inl e
      | Inr fe \<Rightarrow>
          (case parse_discretization discretization of
             Inl e \<Rightarrow> Inl e
           | Inr m \<Rightarrow>
               Inr \<lparr>it_fe = fe, it_dm = m, it_pixels = parse_pixels pixels,
                    it_xrot = [], it_coords = []\<rparr>))"

text \<open>
  A method that mutates the instance returns the instance after the call together with
  the exception, if one was raised: assignments made before a \<^verbatim>\<open>raise\<close> persist.
\<close>

definition calculate_coords :: "env \<Rightarrow> 'p image_transformer \<Rightarrow> error option \<times> 'p image_transformer" where
  "calculate_coords ev t =
     (case call_dm ev (it_dm t) (it_xrot t) (it_pixels t) of
        Inl e \<Rightarrow> (Some e, t)
      | Inr px_coords \<Rightarrow> (None, t\<lparr>it_coords := px_coords\<rparr>))"

text \<open>
  The setter of \<^verbatim>\<open>pixels\<close>. Every instance has the attribute \<^verbatim>\<open>_coords\<close> (the constructor
  sets it), so the test \<^verbatim>\<open>hasattr(self, '_coords')\<close> always succeeds.
\<close>

definition pixels_setter :: "env \<Rightarrow> pixels_arg \<Rightarrow> 'p image_transformer \<Rightarrow> error option \<times> 'p image_transformer" where
  "pixels_setter ev pixels t =
     (let pixels = (case pixels of PxInt n \<Rightarrow> (n, n) | PxTuple p \<Rightarrow> p);
          t = t\<lparr>it_pixels := pixels\<rparr>
      in calculate_coords ev t)"

text \<open>The input \<open>X\<close> of \<^verbatim>\<open>fit\<close> and \<^verbatim>\<open>transform\<close>: a two-dimensional array of finite floats.\<close>

record 'a matrix =
  nrows :: nat
  ncols :: nat
  elems :: "'a list"

definition np_transpose :: "'a matrix \<Rightarrow> 'a matrix" where
  "np_transpose X =
     \<lparr>nrows = ncols X, ncols = nrows X,
      elems = concat (map (\<lambda>j. map (\<lambda>i. elems X ! (i * ncols X + j)) [0..<nrows X]) [0..<ncols X])\<rparr>"

definition fit ::
  "env \<Rightarrow> ('p \<Rightarrow> real matrix \<Rightarrow> (error + position) \<times> 'p) \<Rightarrow> real matrix \<Rightarrow> 'p image_transformer
   \<Rightarrow> error option \<times> 'p image_transformer" where
  "fit ev fit_transform X t =
     (case fit_transform (it_fe t) (np_transpose X) of
        (Inl e, fe') \<Rightarrow> (Some e, t\<lparr>it_fe := fe'\<rparr>)
      | (Inr x_new, fe') \<Rightarrow>
          (case align ev x_new of
             Inl e \<Rightarrow> (Some e, t\<lparr>it_fe := fe'\<rparr>)
           | Inr xr \<Rightarrow> calculate_coords ev (t\<lparr>it_fe := fe', it_xrot := xr\<rparr>)))"

text \<open>
  The constructor of \<^verbatim>\<open>MRepImageTransformer\<close>. An element of its list is a feature extractor
  or a pair of a feature extractor and a discretization key. The default key and the
  pixels are stored as they are given; one \<^verbatim>\<open>ImageTransformer\<close> is constructed per element,
  and the first constructor that raises ends the loop.
\<close>

datatype 'p it_config = Extractor "'p feature_extractor" | ExtractorWith "'p feature_extractor" string

record 'p mrep_image_transformer =
  mr_discretization :: string
  mr_its :: "'p projector image_transformer list"
  mr_pixels :: pixels_arg
  mr_data :: "real matrix option"

definition initialize_image_transformer ::
  "string \<Rightarrow> pixels_arg \<Rightarrow> 'p it_config \<Rightarrow> error + 'p projector image_transformer" where
  "initialize_image_transformer discretization pixels config =
     (case config of
        ExtractorWith fe key \<Rightarrow> init fe key pixels
      | Extractor fe \<Rightarrow> init fe discretization pixels)"

definition mrep_init ::
  "'p it_config list \<Rightarrow> string \<Rightarrow> pixels_arg \<Rightarrow> error + 'p mrep_image_transformer" where
  "mrep_init feature_extractor discretization pixels =
     (case collect (map (initialize_image_transformer discretization pixels) feature_extractor) of
        Inl e \<Rightarrow> Inl e
      | Inr its \<Rightarrow>
          Inr \<lparr>mr_discretization = discretization, mr_its = its, mr_pixels = pixels,
               mr_data = None\<rparr>)"

subsection \<open>Transform\<close>

text \<open>
  \<^verbatim>\<open>np.unique(a, return_inverse=True, axis=0)\<close>: the distinct rows in lexicographic order,
  and for every row of \<open>a\<close> its position among them.
\<close>

definition np_unique_rows :: "(int \<times> int) list \<Rightarrow> (int \<times> int) list \<times> nat list" where
  "np_unique_rows a =
     (let unq = sort (remdups a)
      in (unq, map (\<lambda>c. length (takeWhile (\<lambda>u. u \<noteq> c) unq)) a))"

text \<open>An integer index along an axis of size \<open>n\<close>: a negative index counts from the end.\<close>

definition np_index :: "nat \<Rightarrow> int \<Rightarrow> error + nat" where
  "np_index n i =
     (if 0 \<le> i \<and> i < int n then Inr (nat i)
      else if - int n \<le> i \<and> i < 0 then Inr (nat (i + int n))
      else Inl IndexError)"

text \<open>\<^verbatim>\<open>X[:, cols].mean(axis=1)\<close>.\<close>

definition select_columns_mean :: "real matrix \<Rightarrow> nat list \<Rightarrow> error + fl list" where
  "select_columns_mean X cols =
     (if list_ex (\<lambda>f. ncols X \<le> f) cols then Inl IndexError
      else Inr (map (\<lambda>s. np_mean (map (\<lambda>f. elems X ! (s * ncols X + f)) cols)) [0..<nrows X]))"

text \<open>\<^verbatim>\<open>img_matrix[:, c[0], c[1]] = vals\<close> on an image batch of shape \<open>(n, h, w)\<close>.\<close>

definition set_pixel :: "nat \<Rightarrow> nat \<Rightarrow> nat \<Rightarrow> int \<times> int \<Rightarrow> fl list \<Rightarrow> fl list \<Rightarrow> error + fl list" where
  "set_pixel n h w c vals img =
     (case np_index h (fst c) of
        Inl e \<Rightarrow> Inl e
      | Inr r \<Rightarrow>
          (case np_index w (snd c) of
             Inl e \<Rightarrow> Inl e
           | Inr cl \<Rightarrow> Inr (fold (\<lambda>s im. im[s * (h * w) + (r * w + cl) := vals ! s]) [0..<n] img)))"

text \<open>The loop \<^verbatim>\<open>for i, c in enumerate(unq)\<close>; the right-hand side is evaluated first.\<close>

fun fill_image ::
  "real matrix \<Rightarrow> px_size \<Rightarrow> nat list \<Rightarrow> (nat \<times> (int \<times> int)) list \<Rightarrow> fl list \<Rightarrow> error + fl list" where
  "fill_image X px idx [] img = Inr img"
| "fill_image X px idx ((i, c) # ics) img =
     (case select_columns_mean X (filter (\<lambda>f. idx ! f = i) [0..<length idx]) of
        Inl e \<Rightarrow> Inl e
      | Inr vals \<Rightarrow>
          (case set_pixel (nrows X) (fst px) (snd px) c vals img of
             Inl e \<Rightarrow> Inl e
           | Inr img' \<Rightarrow> fill_image X px idx ics img'))"

text \<open>\<^verbatim>\<open>np.repeat(mat[..., np.newaxis], 3, axis=-1)\<close>.\<close>

definition mat_to_rgb :: "'a ndarray \<Rightarrow> 'a ndarray" where
  "mat_to_rgb mat = \<lparr>shape = shape mat @ [3], data = concat (map (replicate 3) (data mat))\<rparr>"

text \<open>\<^verbatim>\<open>torch.from_numpy(mat).unsqueeze(1).repeat(1, 3, 1, 1)\<close> on a batch of shape \<open>(n, h, w)\<close>.\<close>

definition mat_to_pytorch :: "'a ndarray \<Rightarrow> 'a ndarray" where
  "mat_to_pytorch mat =
     (let n = hd (shape mat); sz = prod_list (tl (shape mat))
      in \<lparr>shape = n # 3 # tl (shape mat),
          data = concat (map (\<lambda>s. concat (replicate 3 (take sz (drop (s * sz) (data mat))))) [0..<n])\<rparr>)"

definition transform :: "'p image_transformer \<Rightarrow> real matrix \<Rightarrow> string \<Rightarrow> fl \<Rightarrow> error + fl ndarray" where
  "transform t X img_format empty_value =
     (let (unq, idx) = np_unique_rows (it_coords t);
          (h, w) = it_pixels t;
          zeros = replicate (nrows X * (h * w)) (Some 0);
          img0 = (if empty_value \<noteq> Some 0 then replicate (nrows X * (h * w)) empty_value else zeros)
      in case fill_image X (h, w) idx (enumerate 0 unq) img0 of
           Inl e \<Rightarrow> Inl e
         | Inr d \<Rightarrow>
             let img_matrix = \<lparr>shape = [nrows X, h, w], data = d\<rparr>
             in if img_format = ''rgb'' then Inr (mat_to_rgb img_matrix)
                else if img_format = ''scalar'' then Inr img_matrix
                else if img_format = ''pytorch'' then Inr (mat_to_pytorch img_matrix)
                else Inl (ValueError (quoted img_format @ '' not accepted for img_format'')))"

subsection \<open>Inverse transform\<close>

text \<open>Python's \<^verbatim>\<open>str\<close> of a non-negative integer and of a tuple of them.\<close>

fun str_nat :: "nat \<Rightarrow> string" where
  "str_nat n = (if n < 10 then [char_of (48 + n)] else str_nat (n div 10) @ [char_of (48 + n mod 10)])"

fun str_items :: "nat list \<Rightarrow> string" where
  "str_items [] = []"
| "str_items [n] = str_nat n"
| "str_items (n # ns) = str_nat n @ '', '' @ str_items ns"

definition str_tuple :: "nat list \<Rightarrow> string" where
  "str_tuple ns = (if length ns = 1 then ''('' @ str_nat (hd ns) @ '',)'' else ''('' @ str_items ns @ '')'')"

text \<open>
  The pair of index arrays \<^verbatim>\<open>self._coords[:, 0], self._coords[:, 1]\<close> as offsets into one
  \<open>h \<times> w\<close> image. Before any fit \<^verbatim>\<open>_coords\<close> is the one-dimensional \<^verbatim>\<open>np.empty(0)\<close>, and
  indexing it with two indices raises IndexError.
\<close>

definition pixel_offset :: "px_size \<Rightarrow> int \<times> int \<Rightarrow> error + nat" where
  "pixel_offset px c =
     (case np_index (fst px) (fst c) of
        Inl e \<Rightarrow> Inl e
      | Inr r \<Rightarrow>
          (case np_index (snd px) (snd c) of
             Inl e \<Rightarrow> Inl e
           | Inr cl \<Rightarrow> Inr (r * snd px + cl)))"

definition pixel_offsets :: "'p image_transformer \<Rightarrow> error + nat list" where
  "pixel_offsets t =
     (if it_coords t = [] then Inl IndexError
      else collect (map (pixel_offset (it_pixels t)) (it_coords t)))"

definition inverse_transform :: "'p image_transformer \<Rightarrow> 'a ndarray \<Rightarrow> error + 'a ndarray" where
  "inverse_transform t img =
     (let sh = shape img; (h, w) = it_pixels t; d = data img in
      if length sh = 2 \<and> sh = [h, w] then
        (case pixel_offsets t of
           Inl e \<Rightarrow> Inl e
         | Inr offs \<Rightarrow> Inr \<lparr>shape = [length offs], data = map (\<lambda>off. d ! off) offs\<rparr>)
      else if length sh = 3 \<and> drop 1 sh = [h, w] then
        (case pixel_offsets t of
           Inl e \<Rightarrow> Inl e
         | Inr offs \<Rightarrow>
             Inr \<lparr>shape = [sh ! 0, length offs],
                  data = concat (map (\<lambda>b. map (\<lambda>off. d ! (b * (h * w) + off)) offs) [0..<sh ! 0])\<rparr>)
      else if length sh = 3 \<and> take 2 sh = [h, w] then
        (case pixel_offsets t of
           Inl e \<Rightarrow> Inl e
         | Inr offs \<Rightarrow>
             Inr \<lparr>shape = [length offs, sh ! 2],
                  data = concat (map (\<lambda>off. map (\<lambda>ch. d ! (off * sh ! 2 + ch)) [0..<sh ! 2]) offs)\<rparr>)
      else if length sh = 4 \<and> take 2 (drop 1 sh) = [h, w] then
        (case pixel_offsets t of
           Inl e \<Rightarrow> Inl e
         | Inr offs \<Rightarrow>
             Inr \<lparr>shape = [sh ! 0, length offs, sh ! 3],
                  data = concat (map (\<lambda>b. concat (map (\<lambda>off.
                           map (\<lambda>ch. d ! ((b * (h * w) + off) * sh ! 3 + ch)) [0..<sh ! 3]) offs))
                         [0..<sh ! 0])\<rparr>)
      else
        Inl (ValueError (''Expected dimensions of (B, '' @ str_nat h @ '', '' @ str_nat w
               @ '', C) where B and C are optional, but got '' @ str_tuple sh)))"

subsection \<open>A reference solver\<close>

text \<open>
  To run the exact-assignment strategy on concrete inputs, \<^verbatim>\<open>linear_sum_assignment\<close> is
  instantiated with an exhaustive search: among all one-to-one assignments of the rows to
  columns, the first of minimal total cost. As scipy does, it rejects a cost matrix with
  an entry that is not a number. It covers matrices with at most as many rows as columns,
  the only ones the transformer builds.
\<close>

fun assignments :: "nat \<Rightarrow> nat list \<Rightarrow> nat list list" where
  "assignments 0 cols = [[]]"
| "assignments (Suc r) cols = concat (map (\<lambda>c. map ((#) c) (assignments r (remove1 c cols))) cols)"

definition assignment_cost :: "fl list list \<Rightarrow> nat list \<Rightarrow> real" where
  "assignment_cost cost sol = sum_list (map (\<lambda>(row, c). the (row ! c)) (zip cost sol))"

definition lsa_exhaustive :: "fl list list \<Rightarrow> error + nat list" where
  "lsa_exhaustive cost =
     (if list_ex (\<lambda>row. list_ex (\<lambda>v. v = None) row) cost
      then Inl (ValueError ''matrix contains invalid numeric entries'')
      else
        let n_cols = (case cost of [] \<Rightarrow> 0 | row # _ \<Rightarrow> length row) in
        if length cost \<le> n_cols
        then Inr (arg_min_list (assignment_cost cost) (assignments (length cost) [0..<n_cols]))
        else Inl (ExternalError ''more rows than columns''))"

subsection \<open>An environment and a mock projector for concrete runs\<close>

text \<open>
  \<open>test_env\<close> instantiates the parameters for running the model on small inputs: the cast
  of NaN is the one of x86-64, the exact solver is the exhaustive search, the rotation is
  the identity (so that the positions a projector returns are taken as the rotated
  positions); the heuristic solver and the clustering are not instantiated and raise.
  \<open>mock_fit_transform\<close> is the method of a projector object that returns given positions
  and counts its calls in the object.
\<close>

definition test_env :: env where
  "test_env =
     \<lparr>nan_as_int = - 9223372036854775808,
      linear_sum_assignment = lsa_exhaustive,
      asymmetric_greedy_search = (\<lambda>cost. Inl (ExternalError ''not instantiated'')),
      bisecting_kmeans = (\<lambda>positions k. Inl (ExternalError ''not instantiated'')),
      align = Inr\<rparr>"

definition mock_fit_transform ::
  "position \<Rightarrow> nat projector \<Rightarrow> real matrix \<Rightarrow> (error + position) \<times> nat projector" where
  "mock_fit_transform x_new fe X =
     (Inr x_new, (case fe of Instance calls \<Rightarrow> Instance (Suc calls) | other \<Rightarrow> other))"

section \<open>Properties\<close>

subsection \<open>Prediction reduction\<close>

lemma collect_map_Inr: "collect (map (\<lambda>x. Inr (f x)) xs) = Inr (map f xs)"
  by (induction xs) simp_all

lemma mask_select_eq:
  assumes "length a = length index"
  shows "mask_select a (map (\<lambda>i. i = k) index)
         = Inr (map (\<lambda>i. a ! i) (filter (\<lambda>i. index ! i = k) [0..<length index]))"
proof -
  let ?g = "\<lambda>i. (a ! i, index ! i = k)"
  have z: "zip a (map (\<lambda>i. i = k) index) = map ?g [0..<length index]"
    using assms by (intro nth_equalityI) simp_all
  have "map fst (filter snd (map ?g [0..<length index]))
        = map (\<lambda>i. a ! i) (filter (\<lambda>i. index ! i = k) [0..<length index])"
    by (simp add: filter_map comp_def)
  then show ?thesis
    using assms by (simp add: mask_select_def z)
qed

lemma np_unique_set: "np_unique xs = sorted_list_of_set (set xs)"
  by (simp add: np_unique_def sorted_list_of_set_sort_remdups)

lemma reduce_with_eq:
  assumes "length y_hat = length index"
  shows "reduce_with f y_hat index
         = (\<lambda>k. Inr (f (map (\<lambda>i. y_hat ! i) (filter (\<lambda>i. index ! i = k) [0..<length index]))))"
  by (rule ext) (simp add: reduce_with_def mask_select_eq [OF assms])

text \<open>
  C9. For a score vector and an index vector of equal length, \<open>prediction_reduction\<close>
  raises nothing and returns one score per distinct index value, in ascending order of the
  index values: with mode \<open>mean\<close> numpy's mean of the scores that carry the index (taken in
  their order in the score vector), with mode \<open>sum\<close> numpy's sum of them. For the scores
  \<open>[1, 2, 3, 4]\<close> and the index \<open>[0, 0, 1, 1]\<close>, on which the mean of binary64 is the exact one,
  the result of mode \<open>mean\<close> is \<open>[1.5, 3.5]\<close>.
\<close>

theorem prediction_reduction_by_index:
  assumes "length y_hat = length index"
  shows "prediction_reduction mean_of sum_of y_hat index ''mean''
           = Inr (map (\<lambda>k. mean_of (map (\<lambda>i. y_hat ! i)
                                        (filter (\<lambda>i. index ! i = k) [0..<length index])))
                      (sorted_list_of_set (set index)))
       \<and> prediction_reduction mean_of sum_of y_hat index ''sum''
           = Inr (map (\<lambda>k. sum_of (map (\<lambda>i. y_hat ! i)
                                       (filter (\<lambda>i. index ! i = k) [0..<length index])))
                      (sorted_list_of_set (set index)))"
  by (simp only: prediction_reduction_def np_unique_set Let_def reduce_with_eq [OF assms]
      collect_map_Inr) simp

theorem prediction_reduction_by_index_witness:
  "length [1, 2, 3, 4 :: real] = length [0, 0, 1, 1 :: int]
   \<and> prediction_reduction np_mean np_sum [1, 2, 3, 4] [0, 0, 1, 1] ''mean''
       = Inr [Some (3 / 2), Some (7 / 2)]
   \<and> prediction_reduction np_mean np_sum [1, 2, 3, 4] [0, 0, 1, 1] ''sum'' = Inr [Some 3, Some 7]
   \<and> map (\<lambda>k. np_mean (map (\<lambda>i. [1, 2, 3, 4 :: real] ! i)
                          (filter (\<lambda>i. [0, 0, 1, 1 :: int] ! i = k) [0..<length [0, 0, 1, 1 :: int]])))
          (sorted_list_of_set (set [0, 0, 1, 1 :: int])) = [Some (3 / 2), Some (7 / 2)]"
proof -
  have m: "prediction_reduction np_mean np_sum [1, 2, 3, 4] [0, 0, 1, 1] ''mean''
             = Inr [Some (3 / 2), Some (7 / 2)]"
    by (simp add: prediction_reduction_def np_unique_def reduce_with_def mask_select_def np_mean_def)
  have s: "prediction_reduction np_mean np_sum [1, 2, 3, 4] [0, 0, 1, 1] ''sum'' = Inr [Some 3, Some 7]"
    by (simp add: prediction_reduction_def np_unique_def reduce_with_def mask_select_def np_sum_def)
  have l: "length [1, 2, 3, 4 :: real] = length [0, 0, 1, 1 :: int]" by simp
  from prediction_reduction_by_index [OF l, of np_mean np_sum] m s l show ?thesis
    by (simp only: sum.inject)
qed

subsection \<open>The pixels setter\<close>

lemma scale_coordinates_empty:
  "scale_coordinates [] px
     = Inl (ValueError ''zero-size array to reduction operation minimum which has no identity'')"
  by (simp add: scale_coordinates_def)

lemma call_dm_empty:
  "call_dm ev m [] px
     = Inl (ValueError ''zero-size array to reduction operation minimum which has no identity'')"
  by (cases m) (simp_all add: coordinate_binning_def coordinate_optimal_assignment_def
      coordinate_heuristic_assignment_def assignment_preprocessing_def scale_coordinates_empty)

text \<open>
  C10. On a transformer that was constructed and never fitted, assigning to \<open>pixels\<close>
  raises (the ValueError of the minimum of the empty position array), for every
  discretization strategy and every new size; the new size is stored all the same. In
  any state, the integer form \<open>n\<close> is stored as the square grid \<open>(n, n)\<close>.
\<close>

theorem pixels_setter_unfitted_raises:
  assumes "init feature_extractor discretization pixels0 = Inr t"
  shows "pixels_setter ev pixels t
           = (Some (ValueError ''zero-size array to reduction operation minimum which has no identity''),
              t\<lparr>it_pixels := parse_pixels pixels\<rparr>)
         \<and> it_pixels (snd (pixels_setter ev (PxInt n) t')) = (n, n)"
proof -
  have x: "it_xrot t = []"
    using assms by (auto simp: init_def split: sum.splits)
  have a: "pixels_setter ev pixels t
           = (Some (ValueError ''zero-size array to reduction operation minimum which has no identity''),
              t\<lparr>it_pixels := parse_pixels pixels\<rparr>)"
    by (cases pixels) (simp_all add: pixels_setter_def calculate_coords_def x call_dm_empty)
  have b: "it_pixels (snd (pixels_setter ev (PxInt n) t')) = (n, n)"
    by (simp add: pixels_setter_def calculate_coords_def Let_def split: sum.splits)
  show ?thesis using a b by simp
qed

theorem pixels_setter_unfitted_raises_witness:
  "init (FeInstance ()) ''bin'' (PxTuple (224, 224))
     = Inr \<lparr>it_fe = Instance (), it_dm = Binning, it_pixels = (224, 224), it_xrot = [], it_coords = []\<rparr>
   \<and> pixels_setter test_env (PxInt 50)
        \<lparr>it_fe = Instance (), it_dm = Binning, it_pixels = (224, 224), it_xrot = [], it_coords = []\<rparr>
      = (Some (ValueError ''zero-size array to reduction operation minimum which has no identity''),
         \<lparr>it_fe = Instance (), it_dm = Binning, it_pixels = (50, 50), it_xrot = [], it_coords = []\<rparr>)"
proof -
  have i: "init (FeInstance ()) ''bin'' (PxTuple (224, 224))
     = Inr \<lparr>it_fe = Instance (), it_dm = Binning, it_pixels = (224, 224), it_xrot = [], it_coords = []\<rparr>"
    by (simp add: init_def parse_feature_extractor_def parse_discretization_def
        DISCRETIZATION_OPTIONS_def)
  have "pixels_setter test_env (PxInt 50)
        \<lparr>it_fe = Instance (), it_dm = Binning, it_pixels = (224, 224), it_xrot = [], it_coords = []\<rparr>
      = (Some (ValueError ''zero-size array to reduction operation minimum which has no identity''),
         \<lparr>it_fe = Instance (), it_dm = Binning, it_pixels = (224, 224), it_xrot = [], it_coords = []\<rparr>
           \<lparr>it_pixels := parse_pixels (PxInt 50)\<rparr>)"
    using pixels_setter_unfitted_raises [OF i] by (rule conjunct1)
  then show ?thesis using i by simp
qed

subsection \<open>Unknown configuration values\<close>

text \<open>
  C8, as stated, fails. With the unknown image format \<open>bogus\<close>, \<open>transform\<close> on an input that
  has fewer columns than the mapping has features raises the IndexError of the image loop,
  which names no format: the format is looked at after the loop. With an object that is
  no feature extractor, the constructor raises the TypeError about the extractor and not
  an error about the unknown key \<open>xyz\<close>. The constructor of \<^verbatim>\<open>MRepImageTransformer\<close> stores
  the unknown default key \<open>xyz\<close> and raises nothing.
\<close>

theorem unknown_configuration_value_counterexample:
  "transform \<lparr>it_fe = (), it_dm = Binning, it_pixels = (2, 2),
              it_xrot = [(0, 0), (1, 2), (2, 1)], it_coords = [(0, 0), (1, 1), (1, 1)]\<rparr>
        \<lparr>nrows = 1, ncols = 2, elems = [5, 7]\<rparr> ''bogus'' (Some 0) = Inl IndexError
   \<and> init (FeOther :: unit feature_extractor) ''xyz'' (PxInt 2)
       = Inl (TypeError (''Parameter feature_extractor is not a string nor has method ''
                @ [CHR 0x22] @ ''fit_transform'' @ [CHR 0x22]))
   \<and> mrep_init ([] :: unit it_config list) ''xyz'' (PxInt 2)
       = Inr \<lparr>mr_discretization = ''xyz'', mr_its = [], mr_pixels = PxInt 2, mr_data = None\<rparr>"
proof (intro conjI)
  show "transform \<lparr>it_fe = (), it_dm = Binning, it_pixels = (2, 2),
              it_xrot = [(0, 0), (1, 2), (2, 1)], it_coords = [(0, 0), (1, 1), (1, 1)]\<rparr>
        \<lparr>nrows = 1, ncols = 2, elems = [5, 7]\<rparr> ''bogus'' (Some 0) = Inl IndexError"
    by (simp add: transform_def np_unique_rows_def select_columns_mean_def np_mean_def
        set_pixel_def np_index_def enumerate_eq_zip upt_conv_Cons eval_nat_numeral)
  show "init (FeOther :: unit feature_extractor) ''xyz'' (PxInt 2)
       = Inl (TypeError (''Parameter feature_extractor is not a string nor has method ''
                @ [CHR 0x22] @ ''fit_transform'' @ [CHR 0x22]))"
    by (simp add: init_def parse_feature_extractor_def)
  show "mrep_init ([] :: unit it_config list) ''xyz'' (PxInt 2)
       = Inr \<lparr>mr_discretization = ''xyz'', mr_its = [], mr_pixels = PxInt 2, mr_data = None\<rparr>"
    by (simp add: mrep_init_def)
qed

text \<open>
  C8, amended. Let the discretization key, the image format and the reduction mode be
  unknown ones.
  \<^item> The constructor of \<^verbatim>\<open>ImageTransformer\<close> validates the feature extractor first: when the
    extractor is accepted it raises KeyError with the key, otherwise it raises the error
    about the extractor. The constructor of \<^verbatim>\<open>MRepImageTransformer\<close> stores the default key
    without looking it up: with an empty list of extractors it raises nothing, and with a
    list that starts with an accepted extractor given without a key of its own it raises
    KeyError with the default key.
  \<^item> \<open>transform\<close> checks the format after the image loop: when the loop completes (the same
    call with format \<open>scalar\<close> returns an image) it raises the ValueError whose message is
    the format between single quotes followed by \<open>not accepted for img_format\<close>; when the
    loop raises, that error is the one raised. In both cases the call fails.
  \<^item> \<open>prediction_reduction\<close> raises the ValueError whose message is \<open>reduction method\<close>, the
    mode between single quotes, \<open>not valid\<close>.

  No default value is substituted.
\<close>

theorem unknown_configuration_value_raises:
  fixes feature_extractor :: "'p feature_extractor"
  assumes "discretization \<notin> {''bin'', ''assignment'', ''lsa'', ''ags''}"
    and "img_format \<notin> {''rgb'', ''scalar'', ''pytorch''}"
    and "reduction \<notin> {''mean'', ''sum''}"
  shows "(\<forall>fe. parse_feature_extractor feature_extractor = Inr fe \<longrightarrow>
             init feature_extractor discretization pixels = Inl (KeyError discretization))
       \<and> (\<forall>e. parse_feature_extractor feature_extractor = Inl e \<longrightarrow>
             init feature_extractor discretization pixels = Inl e)
       \<and> mrep_init ([] :: 'p it_config list) discretization pixels
           = Inr \<lparr>mr_discretization = discretization, mr_its = [], mr_pixels = pixels,
                  mr_data = None\<rparr>
       \<and> (\<forall>fe. parse_feature_extractor feature_extractor = Inr fe \<longrightarrow>
             mrep_init (Extractor feature_extractor # configs) discretization pixels
               = Inl (KeyError discretization))
       \<and> (\<forall>img. transform t X ''scalar'' empty_value = Inr img \<longrightarrow>
             transform t X img_format empty_value
               = Inl (ValueError ([CHR 0x27] @ img_format @ [CHR 0x27]
                        @ '' not accepted for img_format'')))
       \<and> (\<forall>e. transform t X ''scalar'' empty_value = Inl e \<longrightarrow>
             transform t X img_format empty_value = Inl e)
       \<and> prediction_reduction mean_of sum_of y_hat index reduction
           = Inl (ValueError (''reduction method '' @ [CHR 0x27] @ reduction @ [CHR 0x27]
                    @ '' not valid''))"
proof -
  have k: "parse_discretization discretization = Inl (KeyError discretization)"
    using assms(1) by (simp add: parse_discretization_def DISCRETIZATION_OPTIONS_def)
  have a: "\<forall>fe. parse_feature_extractor feature_extractor = Inr fe \<longrightarrow>
             init feature_extractor discretization pixels = Inl (KeyError discretization)"
    by (simp add: init_def k)
  have b: "\<forall>e. parse_feature_extractor feature_extractor = Inl e \<longrightarrow>
             init feature_extractor discretization pixels = Inl e"
    by (simp add: init_def)
  have c: "mrep_init ([] :: 'p it_config list) discretization pixels
           = Inr \<lparr>mr_discretization = discretization, mr_its = [], mr_pixels = pixels,
                  mr_data = None\<rparr>"
    by (simp add: mrep_init_def)
  have c': "\<forall>fe. parse_feature_extractor feature_extractor = Inr fe \<longrightarrow>
             mrep_init (Extractor feature_extractor # configs) discretization pixels
               = Inl (KeyError discretization)"
    by (simp add: mrep_init_def initialize_image_transformer_def init_def k)
  have d: "\<forall>img. transform t X ''scalar'' empty_value = Inr img \<longrightarrow>
             transform t X img_format empty_value
               = Inl (ValueError ([CHR 0x27] @ img_format @ [CHR 0x27]
                        @ '' not accepted for img_format''))"
    using assms(2)
    by (auto simp: transform_def quoted_def Let_def split: prod.splits sum.splits)
  have e: "\<forall>e. transform t X ''scalar'' empty_value = Inl e \<longrightarrow>
             transform t X img_format empty_value = Inl e"
    using assms(2) by (auto simp: transform_def Let_def split: prod.splits sum.splits)
  have f: "prediction_reduction mean_of sum_of y_hat index reduction
           = Inl (ValueError (''reduction method '' @ [CHR 0x27] @ reduction @ [CHR 0x27]
                    @ '' not valid''))"
    using assms(3) by (simp add: prediction_reduction_def quoted_def)
  show ?thesis
    by (intro conjI) (rule a b c c' d e f)+
qed

theorem unknown_configuration_value_raises_witness:
  "''xyz'' \<notin> {''bin'', ''assignment'', ''lsa'', ''ags''}
   \<and> ''bogus'' \<notin> {''rgb'', ''scalar'', ''pytorch''}
   \<and> ''max'' \<notin> {''mean'', ''sum''}
   \<and> parse_feature_extractor (FeInstance ()) = Inr (Instance ())
   \<and> init (FeInstance ()) ''xyz'' (PxInt 2) = Inl (KeyError ''xyz'')
   \<and> mrep_init [Extractor (FeInstance ()), ExtractorWith (FeInstance ()) ''bin''] ''xyz'' (PxInt 2)
       = Inl (KeyError ''xyz'')
   \<and> transform \<lparr>it_fe = (), it_dm = Binning, it_pixels = (1, 1), it_xrot = [(0, 0)], it_coords = [(0, 0)]\<rparr>
        \<lparr>nrows = 1, ncols = 1, elems = [1]\<rparr> ''scalar'' (Some 0)
       = Inr \<lparr>shape = [1, 1, 1], data = [Some 1]\<rparr>
   \<and> transform \<lparr>it_fe = (), it_dm = Binning, it_pixels = (1, 1), it_xrot = [(0, 0)], it_coords = [(0, 0)]\<rparr>
        \<lparr>nrows = 1, ncols = 1, elems = [1]\<rparr> ''bogus'' (Some 0)
       = Inl (ValueError [CHR 0x27, CHR ''b'', CHR ''o'', CHR ''g'', CHR ''u'', CHR ''s'', CHR 0x27,
                CHR '' '', CHR ''n'', CHR ''o'', CHR ''t'', CHR '' '', CHR ''a'', CHR ''c'', CHR ''c'',
                CHR ''e'', CHR ''p'', CHR ''t'', CHR ''e'', CHR ''d'', CHR '' '', CHR ''f'', CHR ''o'',
                CHR ''r'', CHR '' '', CHR ''i'', CHR ''m'', CHR ''g'', CHR ''_'', CHR ''f'', CHR ''o'',
                CHR ''r'', CHR ''m'', CHR ''a'', CHR ''t''])
   \<and> prediction_reduction np_mean np_sum [1, 2] [0, 0] ''max''
       = Inl (ValueError [CHR ''r'', CHR ''e'', CHR ''d'', CHR ''u'', CHR ''c'', CHR ''t'', CHR ''i'',
                CHR ''o'', CHR ''n'', CHR '' '', CHR ''m'', CHR ''e'', CHR ''t'', CHR ''h'', CHR ''o'',
                CHR ''d'', CHR '' '', CHR 0x27, CHR ''m'', CHR ''a'', CHR ''x'', CHR 0x27, CHR '' '',
                CHR ''n'', CHR ''o'', CHR ''t'', CHR '' '', CHR ''v'', CHR ''a'', CHR ''l'', CHR ''i'',
                CHR ''d''])"
proof -
  let ?t = "\<lparr>it_fe = (), it_dm = Binning, it_pixels = (1, 1), it_xrot = [(0, 0)], it_coords = [(0, 0)]\<rparr>"
  let ?X = "\<lparr>nrows = 1, ncols = 1, elems = [1::real]\<rparr>"
  have k: "''xyz'' \<notin> {''bin'', ''assignment'', ''lsa'', ''ags''}" by simp
  have f: "''bogus'' \<notin> {''rgb'', ''scalar'', ''pytorch''}" by simp
  have m: "''max'' \<notin> {''mean'', ''sum''}" by simp
  have p: "parse_feature_extractor (FeInstance ()) = Inr (Instance ())"
    by (simp add: parse_feature_extractor_def)
  have s: "transform ?t ?X ''scalar'' (Some 0) = Inr \<lparr>shape = [1, 1, 1], data = [Some 1]\<rparr>"
    by (simp add: transform_def np_unique_rows_def select_columns_mean_def np_mean_def
        set_pixel_def np_index_def enumerate_eq_zip)
  from unknown_configuration_value_raises
         [OF k f m, of "FeInstance ()" "PxInt 2" "[ExtractorWith (FeInstance ()) ''bin'']" ?t ?X "Some 0"
            np_mean np_sum "[1, 2]" "[0, 0]"]
       p s k f m
  show ?thesis by simp
qed

subsection \<open>The coordinate scaler and a zero range\<close>

text \<open>
  C3. The scaler has no guard for an axis with zero range. The two points \<open>(1, 0)\<close> and
  \<open>(1, 1)\<close> share their first coordinate; on the grid \<open>(2, 2)\<close> the scaler divides 0 by 0 on
  the first axis and returns NaN for both points there, where its documentation promises
  coordinates between zero and the dimensional maximum.
\<close>

theorem scale_coordinates_zero_range_nan:
  "scale_coordinates [(1, 0), (1, 1)] (2, 2) = Inr [(None, Some 0), (None, Some 2)]"
  by (simp add: scale_coordinates_def np_divide_def np_multiply_def)

subsection \<open>Centroid enumeration against index decoding\<close>

text \<open>
  C1. On the grid \<open>(2, 3)\<close> the enumeration writes the pixels \<open>(0, 2)\<close> and \<open>(1, 0)\<close> to the
  same row 2 of the centroid array, so that the centroid \<open>(0.5, 2.5)\<close> of pixel \<open>(0, 2)\<close>
  is lost and the last row stays uninitialised; row 4 holds the centroid of pixel
  \<open>(1, 2)\<close> and is decoded to \<open>(2, 0)\<close>. On the grid \<open>(3, 2)\<close> the enumeration raises
  IndexError.
\<close>

theorem centroid_enumeration_nonsquare:
  "calculate_pixel_centroids (2, 3)
     = Inr [(Some (1/2), Some (1/2)), (Some (1/2), Some (3/2)), (Some (3/2), Some (1/2)),
            (Some (3/2), Some (3/2)), (Some (3/2), Some (5/2)), (None, None)]
   \<and> assignment_postprocessing [(0, 0)] (2, 3) [4] [0] = Inr [(2, 0)]
   \<and> calculate_pixel_centroids (3, 2) = Inl IndexError"
proof (intro conjI)
  show "calculate_pixel_centroids (2, 3)
     = Inr [(Some (1/2), Some (1/2)), (Some (1/2), Some (3/2)), (Some (3/2), Some (1/2)),
            (Some (3/2), Some (3/2)), (Some (3/2), Some (5/2)), (None, None)]"
    by (simp add: calculate_pixel_centroids_def np_add_def upt_conv_Cons eval_nat_numeral)
  show "assignment_postprocessing [(0, 0)] (2, 3) [4] [0] = Inr [(2, 0)]"
    by (simp add: assignment_postprocessing_def assign_pixel_def np_mod_def np_floor_divide_def)
  show "calculate_pixel_centroids (3, 2) = Inl IndexError"
    by (simp add: calculate_pixel_centroids_def upt_conv_Cons eval_nat_numeral)
qed

subsection \<open>Exact assignment on concrete inputs\<close>

lemma test_env_simps:
  "nan_as_int test_env = - 9223372036854775808"
  "linear_sum_assignment test_env = lsa_exhaustive"
  "align test_env = Inr"
  by (simp_all add: test_env_def)

lemma coordinate_optimal_assignment_unclustered:
  assumes "scale_coordinates position px_size = Inr scaled"
    and "calculate_pixel_centroids px_size = Inr px_centers"
    and "length scaled \<le> fst px_size * snd px_size"
    and "linear_sum_assignment ev (squared (cdist scaled px_centers)) = Inr sol"
  shows "coordinate_optimal_assignment ev position px_size
           = assignment_postprocessing position px_size sol [0..<length scaled]"
proof -
  have k: "\<not> int (fst px_size * snd px_size) < int (length scaled)"
    using assms(3) by linarith
  show ?thesis
    using assms(1,2,4) k
    by (simp add: coordinate_optimal_assignment_def assignment_preprocessing_def Let_def
        del: of_nat_mult)
qed

lemma centroids_2_2:
  "calculate_pixel_centroids (2, 2)
     = Inr [(Some (1/2), Some (1/2)), (Some (1/2), Some (3/2)),
            (Some (3/2), Some (1/2)), (Some (3/2), Some (3/2))]"
  by (simp add: calculate_pixel_centroids_def np_add_def upt_conv_Cons eval_nat_numeral)

lemma centroids_1_3:
  "calculate_pixel_centroids (1, 3)
     = Inr [(Some (1/2), Some (1/2)), (Some (1/2), Some (3/2)), (Some (1/2), Some (5/2))]"
  by (simp add: calculate_pixel_centroids_def np_add_def upt_conv_Cons eval_nat_numeral)

lemma lsa_2_2:
  "lsa_exhaustive [[Some (1/2), Some (5/2), Some (5/2), Some (9/2)],
                   [Some (41/18), Some (53/18), Some (5/18), Some (17/18)],
                   [Some (5/2), Some (1/2), Some (9/2), Some (5/2)]] = Inr [0, 2, 1]"
  by (simp add: lsa_exhaustive_def assignment_cost_def upt_conv_Cons eval_nat_numeral)

lemma lsa_1_3:
  "lsa_exhaustive [[Some (1/2), Some (5/2), Some (13/2)],
                   [Some (1/2), Some (1/2), Some (5/2)],
                   [Some (13/2), Some (5/2), Some (1/2)]] = Inr [0, 1, 2]"
  by (simp add: lsa_exhaustive_def assignment_cost_def upt_conv_Cons eval_nat_numeral)

lemma coa_eval_2_2:
  "coordinate_optimal_assignment test_env [(0, 0), (2, 1), (0, 3)] (2, 2) = Inr [(0, 0), (1, 0), (0, 1)]"
proof -
  have sc: "scale_coordinates [(0, 0), (2, 1), (0, 3)] (2, 2)
            = Inr [(Some 0, Some 0), (Some 2, Some (2/3)), (Some 0, Some 2)]"
    by (simp add: scale_coordinates_def np_divide_def np_multiply_def)
  have co: "squared (cdist [(Some 0, Some 0), (Some 2, Some (2/3)), (Some 0, Some 2)]
              [(Some (1/2), Some (1/2)), (Some (1/2), Some (3/2)),
               (Some (3/2), Some (1/2)), (Some (3/2), Some (3/2))])
            = [[Some (1/2), Some (5/2), Some (5/2), Some (9/2)],
               [Some (41/18), Some (53/18), Some (5/18), Some (17/18)],
               [Some (5/2), Some (1/2), Some (9/2), Some (5/2)]]"
    by (simp add: squared_def cdist_def euclidean_def power2_eq_square)
  have ls: "linear_sum_assignment test_env
              (squared (cdist [(Some 0, Some 0), (Some 2, Some (2/3)), (Some 0, Some 2)]
              [(Some (1/2), Some (1/2)), (Some (1/2), Some (3/2)),
               (Some (3/2), Some (1/2)), (Some (3/2), Some (3/2))])) = Inr [0, 2, 1]"
    by (simp only: co test_env_simps lsa_2_2)
  have po: "assignment_postprocessing [(0, 0), (2, 1), (0, 3)] (2, 2) [0, 2, 1]
              [0..<length [(Some (0::real), Some (0::real)), (Some 2, Some (2/3)), (Some 0, Some 2)]]
            = Inr [(0, 0), (1, 0), (0, 1)]"
    by (simp add: assignment_postprocessing_def assign_pixel_def np_mod_def np_floor_divide_def
        upt_conv_Cons)
  show ?thesis
    using coordinate_optimal_assignment_unclustered [OF sc centroids_2_2 _ ls] po by simp
qed

lemma coa_eval_1_3:
  "coordinate_optimal_assignment test_env [(0, 0), (2, 1), (0, 3)] (1, 3) = Inr [(0, 0), (1, 0), (2, 0)]"
proof -
  have sc: "scale_coordinates [(0, 0), (2, 1), (0, 3)] (1, 3)
            = Inr [(Some 0, Some 0), (Some 1, Some 1), (Some 0, Some 3)]"
    by (simp add: scale_coordinates_def np_divide_def np_multiply_def)
  have co: "squared (cdist [(Some 0, Some 0), (Some 1, Some 1), (Some 0, Some 3)]
              [(Some (1/2), Some (1/2)), (Some (1/2), Some (3/2)), (Some (1/2), Some (5/2))])
            = [[Some (1/2), Some (5/2), Some (13/2)],
               [Some (1/2), Some (1/2), Some (5/2)],
               [Some (13/2), Some (5/2), Some (1/2)]]"
    by (simp add: squared_def cdist_def euclidean_def power2_eq_square)
  have ls: "linear_sum_assignment test_env
              (squared (cdist [(Some 0, Some 0), (Some 1, Some 1), (Some 0, Some 3)]
              [(Some (1/2), Some (1/2)), (Some (1/2), Some (3/2)), (Some (1/2), Some (5/2))]))
            = Inr [0, 1, 2]"
    by (simp only: co test_env_simps lsa_1_3)
  have po: "assignment_postprocessing [(0, 0), (2, 1), (0, 3)] (1, 3) [0, 1, 2]
              [0..<length [(Some (0::real), Some (0::real)), (Some 1, Some 1), (Some 0, Some 3)]]
            = Inr [(0, 0), (1, 0), (2, 0)]"
    by (simp add: assignment_postprocessing_def assign_pixel_def np_mod_def np_floor_divide_def
        upt_conv_Cons)
  show ?thesis
    using coordinate_optimal_assignment_unclustered [OF sc centroids_1_3 _ ls] po by simp
qed

lemma scale_coordinates_nonempty:
  "position \<noteq> [] \<Longrightarrow> \<exists>scaled. scale_coordinates position px_size = Inr scaled"
  by (simp add: scale_coordinates_def Let_def)

lemma centroids_3_2: "calculate_pixel_centroids (3, 2) = Inl IndexError"
  by (simp add: calculate_pixel_centroids_def upt_conv_Cons eval_nat_numeral)

lemma assignment_preprocessing_3_2:
  assumes "position \<noteq> []"
  shows "assignment_preprocessing ev position (3, 2) k = Inl IndexError"
proof -
  obtain scaled where "scale_coordinates position (3, 2) = Inr scaled"
    using scale_coordinates_nonempty [OF assms] by blast
  then show ?thesis
    by (simp add: assignment_preprocessing_def centroids_3_2)
qed

lemma call_dm_3_2:
  assumes "position \<noteq> []" and "m \<noteq> Binning"
  shows "call_dm ev m position (3, 2) = Inl IndexError"
  using assms(2)
  by (cases m)
     (simp_all add: coordinate_optimal_assignment_def coordinate_heuristic_assignment_def
        assignment_preprocessing_3_2 [OF assms(1)] Let_def)

subsection \<open>Bounds of the mapping\<close>

text \<open>
  C2. A transformer constructed with \<open>lsa\<close> on the grid \<open>(1, 3)\<close> and fitted on three features
  with the rotated positions \<open>(0, 0)\<close>, \<open>(2, 1)\<close>, \<open>(0, 3)\<close> stores the mapping
  \<open>[(0, 0), (1, 0), (2, 0)]\<close>: the rows 1 and 2 of the second and third feature are not below
  the height 1. The same transformer fitted on the grid \<open>(2, 2)\<close> stores a mapping inside the
  grid; resizing it to \<open>(1, 3)\<close> recomputes the mapping above.
\<close>

theorem mapping_out_of_grid_nonsquare:
  "init (FeInstance 0) ''lsa'' (PxTuple (1, 3))
     = Inr \<lparr>it_fe = Instance 0, it_dm = Optimal_assignment, it_pixels = (1, 3), it_xrot = [], it_coords = []\<rparr>
   \<and> fit test_env (mock_fit_transform [(0, 0), (2, 1), (0, 3)]) \<lparr>nrows = 1, ncols = 3, elems = [5, 7, 9]\<rparr>
        \<lparr>it_fe = Instance 0, it_dm = Optimal_assignment, it_pixels = (1, 3), it_xrot = [], it_coords = []\<rparr>
     = (None, \<lparr>it_fe = Instance 1, it_dm = Optimal_assignment, it_pixels = (1, 3),
               it_xrot = [(0, 0), (2, 1), (0, 3)], it_coords = [(0, 0), (1, 0), (2, 0)]\<rparr>)
   \<and> fit test_env (mock_fit_transform [(0, 0), (2, 1), (0, 3)]) \<lparr>nrows = 1, ncols = 3, elems = [5, 7, 9]\<rparr>
        \<lparr>it_fe = Instance 0, it_dm = Optimal_assignment, it_pixels = (2, 2), it_xrot = [], it_coords = []\<rparr>
     = (None, \<lparr>it_fe = Instance 1, it_dm = Optimal_assignment, it_pixels = (2, 2),
               it_xrot = [(0, 0), (2, 1), (0, 3)], it_coords = [(0, 0), (1, 0), (0, 1)]\<rparr>)
   \<and> pixels_setter test_env (PxTuple (1, 3))
        \<lparr>it_fe = Instance (1::nat), it_dm = Optimal_assignment, it_pixels = (2, 2),
         it_xrot = [(0, 0), (2, 1), (0, 3)], it_coords = [(0, 0), (1, 0), (0, 1)]\<rparr>
     = (None, \<lparr>it_fe = Instance 1, it_dm = Optimal_assignment, it_pixels = (1, 3),
               it_xrot = [(0, 0), (2, 1), (0, 3)], it_coords = [(0, 0), (1, 0), (2, 0)]\<rparr>)"
proof (intro conjI)
  show "init (FeInstance 0) ''lsa'' (PxTuple (1, 3))
     = Inr \<lparr>it_fe = Instance 0, it_dm = Optimal_assignment, it_pixels = (1, 3), it_xrot = [], it_coords = []\<rparr>"
    by (simp add: init_def parse_feature_extractor_def parse_discretization_def
        DISCRETIZATION_OPTIONS_def)
  show "fit test_env (mock_fit_transform [(0, 0), (2, 1), (0, 3)]) \<lparr>nrows = 1, ncols = 3, elems = [5, 7, 9]\<rparr>
        \<lparr>it_fe = Instance 0, it_dm = Optimal_assignment, it_pixels = (1, 3), it_xrot = [], it_coords = []\<rparr>
     = (None, \<lparr>it_fe = Instance 1, it_dm = Optimal_assignment, it_pixels = (1, 3),
               it_xrot = [(0, 0), (2, 1), (0, 3)], it_coords = [(0, 0), (1, 0), (2, 0)]\<rparr>)"
    by (simp add: fit_def mock_fit_transform_def calculate_coords_def
        coa_eval_1_3 [simplified] test_env_simps)
  show "fit test_env (mock_fit_transform [(0, 0), (2, 1), (0, 3)]) \<lparr>nrows = 1, ncols = 3, elems = [5, 7, 9]\<rparr>
        \<lparr>it_fe = Instance 0, it_dm = Optimal_assignment, it_pixels = (2, 2), it_xrot = [], it_coords = []\<rparr>
     = (None, \<lparr>it_fe = Instance 1, it_dm = Optimal_assignment, it_pixels = (2, 2),
               it_xrot = [(0, 0), (2, 1), (0, 3)], it_coords = [(0, 0), (1, 0), (0, 1)]\<rparr>)"
    by (simp add: fit_def mock_fit_transform_def calculate_coords_def
        coa_eval_2_2 [simplified] test_env_simps)
  show "pixels_setter test_env (PxTuple (1, 3))
        \<lparr>it_fe = Instance (1::nat), it_dm = Optimal_assignment, it_pixels = (2, 2),
         it_xrot = [(0, 0), (2, 1), (0, 3)], it_coords = [(0, 0), (1, 0), (0, 1)]\<rparr>
     = (None, \<lparr>it_fe = Instance 1, it_dm = Optimal_assignment, it_pixels = (1, 3),
               it_xrot = [(0, 0), (2, 1), (0, 3)], it_coords = [(0, 0), (1, 0), (2, 0)]\<rparr>)"
    by (simp add: pixels_setter_def calculate_coords_def coa_eval_1_3 [simplified])
qed

subsection \<open>Exact assignment and the grid shape\<close>


subsection \<open>Resizing a fitted transformer\<close>

text \<open>
  C6. On every transformer fitted with an assignment strategy (\<open>lsa\<close>, \<open>assignment\<close> or
  \<open>ags\<close>), assigning the grid \<open>(3, 2)\<close> to \<open>pixels\<close> raises the IndexError of the centroid
  enumeration: the new grid is stored, the mapping is not recomputed, and the transformer
  is left with the mapping of the old grid. The projector and the cached positions are as
  they were.
\<close>

theorem pixels_setter_keeps_old_mapping:
  assumes "fit ev fit_transform X t0 = (None, t)"
    and "it_dm t0 \<noteq> Binning"
  shows "pixels_setter ev (PxTuple (3, 2)) t = (Some IndexError, t\<lparr>it_pixels := (3, 2)\<rparr>)"
proof -
  obtain fe' xr coords where
    c: "call_dm ev (it_dm t0) xr (it_pixels t0) = Inr coords"
    and t: "t = t0\<lparr>it_fe := fe', it_xrot := xr, it_coords := coords\<rparr>"
    using assms(1)
    by (auto simp: fit_def calculate_coords_def split: prod.splits sum.splits)
  have ne: "xr \<noteq> []"
    using c by (auto simp: call_dm_empty)
  have "call_dm ev (it_dm t0) xr (3, 2) = Inl IndexError"
    using ne assms(2) by (rule call_dm_3_2)
  then show ?thesis
    by (simp add: pixels_setter_def calculate_coords_def t)
qed

theorem pixels_setter_keeps_old_mapping_witness:
  "fit test_env (mock_fit_transform [(0, 0), (2, 1), (0, 3)]) \<lparr>nrows = 1, ncols = 3, elems = [5, 7, 9]\<rparr>
        \<lparr>it_fe = Instance 0, it_dm = Optimal_assignment, it_pixels = (2, 2), it_xrot = [], it_coords = []\<rparr>
     = (None, \<lparr>it_fe = Instance 1, it_dm = Optimal_assignment, it_pixels = (2, 2),
               it_xrot = [(0, 0), (2, 1), (0, 3)], it_coords = [(0, 0), (1, 0), (0, 1)]\<rparr>)
   \<and> Optimal_assignment \<noteq> Binning
   \<and> pixels_setter test_env (PxTuple (3, 2))
        \<lparr>it_fe = Instance (1::nat), it_dm = Optimal_assignment, it_pixels = (2, 2),
         it_xrot = [(0, 0), (2, 1), (0, 3)], it_coords = [(0, 0), (1, 0), (0, 1)]\<rparr>
     = (Some IndexError,
        \<lparr>it_fe = Instance 1, it_dm = Optimal_assignment, it_pixels = (3, 2),
         it_xrot = [(0, 0), (2, 1), (0, 3)], it_coords = [(0, 0), (1, 0), (0, 1)]\<rparr>)"
proof -
  let ?t0 = "\<lparr>it_fe = Instance (0::nat), it_dm = Optimal_assignment, it_pixels = (2, 2),
              it_xrot = [], it_coords = []\<rparr>"
  have f: "fit test_env (mock_fit_transform [(0, 0), (2, 1), (0, 3)])
             \<lparr>nrows = 1, ncols = 3, elems = [5, 7, 9]\<rparr> ?t0
     = (None, \<lparr>it_fe = Instance 1, it_dm = Optimal_assignment, it_pixels = (2, 2),
               it_xrot = [(0, 0), (2, 1), (0, 3)], it_coords = [(0, 0), (1, 0), (0, 1)]\<rparr>)"
    by (simp add: fit_def mock_fit_transform_def calculate_coords_def
        coa_eval_2_2 [simplified] test_env_simps)
  have d: "it_dm ?t0 \<noteq> Binning" by simp
  from pixels_setter_keeps_old_mapping [OF f d] f show ?thesis by simp
qed

subsection \<open>Round trip\<close>

text \<open>
  C5. A transformer constructed with \<open>lsa\<close> on the grid \<open>(1, 3)\<close> and fitted on three features
  with the rotated positions \<open>(0, 0)\<close>, \<open>(2, 1)\<close>, \<open>(0, 3)\<close> has the mapping
  \<open>[(0, 0), (1, 0), (2, 0)]\<close>, in which no pixel is repeated, and \<open>transform\<close> raises IndexError
  on an input with the three fit-time feature columns: no image is produced that
  \<open>inverse_transform\<close> could take back.
\<close>

theorem round_trip_out_of_grid_mapping:
  "fit test_env (mock_fit_transform [(0, 0), (2, 1), (0, 3)]) \<lparr>nrows = 1, ncols = 3, elems = [5, 7, 9]\<rparr>
        \<lparr>it_fe = Instance 0, it_dm = Optimal_assignment, it_pixels = (1, 3), it_xrot = [], it_coords = []\<rparr>
     = (None, \<lparr>it_fe = Instance 1, it_dm = Optimal_assignment, it_pixels = (1, 3),
               it_xrot = [(0, 0), (2, 1), (0, 3)], it_coords = [(0, 0), (1, 0), (2, 0)]\<rparr>)
   \<and> distinct [(0, 0), (1, 0), (2, 0) :: int \<times> int]
   \<and> transform \<lparr>it_fe = Instance (1::nat), it_dm = Optimal_assignment, it_pixels = (1, 3),
               it_xrot = [(0, 0), (2, 1), (0, 3)], it_coords = [(0, 0), (1, 0), (2, 0)]\<rparr>
         \<lparr>nrows = 1, ncols = 3, elems = [5, 7, 9]\<rparr> ''scalar'' (Some 0) = Inl IndexError"
proof (intro conjI)
  show "fit test_env (mock_fit_transform [(0, 0), (2, 1), (0, 3)]) \<lparr>nrows = 1, ncols = 3, elems = [5, 7, 9]\<rparr>
        \<lparr>it_fe = Instance 0, it_dm = Optimal_assignment, it_pixels = (1, 3), it_xrot = [], it_coords = []\<rparr>
     = (None, \<lparr>it_fe = Instance 1, it_dm = Optimal_assignment, it_pixels = (1, 3),
               it_xrot = [(0, 0), (2, 1), (0, 3)], it_coords = [(0, 0), (1, 0), (2, 0)]\<rparr>)"
    by (simp add: fit_def mock_fit_transform_def calculate_coords_def
        coa_eval_1_3 [simplified] test_env_simps)
  show "distinct [(0, 0), (1, 0), (2, 0) :: int \<times> int]" by simp
  show "transform \<lparr>it_fe = Instance (1::nat), it_dm = Optimal_assignment, it_pixels = (1, 3),
               it_xrot = [(0, 0), (2, 1), (0, 3)], it_coords = [(0, 0), (1, 0), (2, 0)]\<rparr>
         \<lparr>nrows = 1, ncols = 3, elems = [5, 7, 9]\<rparr> ''scalar'' (Some 0) = Inl IndexError"
   by (simp add: transform_def np_unique_rows_def select_columns_mean_def np_mean_def
        set_pixel_def np_index_def enumerate_eq_zip upt_conv_Cons)
qed

subsection \<open>Transform and the number of feature columns\<close>

text \<open>
  C7, as stated, fails: a transformer fitted on three features (two of them binned to the
  same pixel) transforms an input with four feature columns into an image and raises
  nothing; the fourth column is not read.
\<close>

theorem transform_surplus_columns_counterexample:
  "fit test_env (mock_fit_transform [(0, 0), (1, 2), (2, 1)]) \<lparr>nrows = 1, ncols = 3, elems = [5, 7, 9]\<rparr>
       \<lparr>it_fe = Instance 0, it_dm = Binning, it_pixels = (2, 2), it_xrot = [], it_coords = []\<rparr>
     = (None, \<lparr>it_fe = Instance 1, it_dm = Binning, it_pixels = (2, 2),
               it_xrot = [(0, 0), (1, 2), (2, 1)], it_coords = [(0, 0), (1, 1), (1, 1)]\<rparr>)
   \<and> transform \<lparr>it_fe = Instance (1::nat), it_dm = Binning, it_pixels = (2, 2),
                 it_xrot = [(0, 0), (1, 2), (2, 1)], it_coords = [(0, 0), (1, 1), (1, 1)]\<rparr>
        \<lparr>nrows = 1, ncols = 4, elems = [5, 7, 9, 11]\<rparr> ''scalar'' (Some 0)
     = Inr \<lparr>shape = [1, 2, 2], data = [Some 5, Some 0, Some 0, Some 8]\<rparr>"
proof (intro conjI)
  show "fit test_env (mock_fit_transform [(0, 0), (1, 2), (2, 1)]) \<lparr>nrows = 1, ncols = 3, elems = [5, 7, 9]\<rparr>
       \<lparr>it_fe = Instance 0, it_dm = Binning, it_pixels = (2, 2), it_xrot = [], it_coords = []\<rparr>
     = (None, \<lparr>it_fe = Instance 1, it_dm = Binning, it_pixels = (2, 2),
               it_xrot = [(0, 0), (1, 2), (2, 1)], it_coords = [(0, 0), (1, 1), (1, 1)]\<rparr>)"
    by (simp add: fit_def mock_fit_transform_def test_env_def calculate_coords_def
        coordinate_binning_def scale_coordinates_def np_divide_def np_multiply_def
        floor_astype_int_def)
  show "transform \<lparr>it_fe = Instance (1::nat), it_dm = Binning, it_pixels = (2, 2),
                 it_xrot = [(0, 0), (1, 2), (2, 1)], it_coords = [(0, 0), (1, 1), (1, 1)]\<rparr>
        \<lparr>nrows = 1, ncols = 4, elems = [5, 7, 9, 11]\<rparr> ''scalar'' (Some 0)
     = Inr \<lparr>shape = [1, 2, 2], data = [Some 5, Some 0, Some 0, Some 8]\<rparr>"
    by (simp add: transform_def np_unique_rows_def select_columns_mean_def np_mean_def
        set_pixel_def np_index_def enumerate_eq_zip upt_conv_Cons eval_nat_numeral)
qed

lemma select_columns_mean_cong:
  assumes "nrows X' = nrows X"
    and "\<forall>f \<in> set cols. f < n"
    and "n \<le> ncols X" and "n \<le> ncols X'"
    and "\<forall>s < nrows X. \<forall>f < n. elems X' ! (s * ncols X' + f) = elems X ! (s * ncols X + f)"
  shows "select_columns_mean X' cols = select_columns_mean X cols"
proof -
  have a: "\<not> list_ex (\<lambda>f. ncols X \<le> f) cols" "\<not> list_ex (\<lambda>f. ncols X' \<le> f) cols"
    using assms(2,3,4) by (auto simp: list_ex_iff)
  have b: "map (\<lambda>f. elems X' ! (s * ncols X' + f)) cols = map (\<lambda>f. elems X ! (s * ncols X + f)) cols"
    if "s < nrows X" for s
    using that assms(2,5) by simp
  have "map (\<lambda>s. np_mean (map (\<lambda>f. elems X' ! (s * ncols X' + f)) cols)) [0..<nrows X]
        = map (\<lambda>s. np_mean (map (\<lambda>f. elems X ! (s * ncols X + f)) cols)) [0..<nrows X]"
    by (rule map_cong [OF refl]) (simp add: b)
  then show ?thesis
    using a assms(1) by (simp add: select_columns_mean_def)
qed

lemma fill_image_cong:
  assumes "nrows X' = nrows X"
    and "length idx \<le> ncols X" and "length idx \<le> ncols X'"
    and "\<forall>s < nrows X. \<forall>f < length idx. elems X' ! (s * ncols X' + f) = elems X ! (s * ncols X + f)"
  shows "fill_image X' px idx ics img = fill_image X px idx ics img"
proof (induction ics arbitrary: img)
  case Nil
  show ?case by simp
next
  case (Cons ic ics)
  obtain i c where ic: "ic = (i, c)" by (cases ic)
  have s: "select_columns_mean X' (filter (\<lambda>f. idx ! f = i) [0..<length idx])
           = select_columns_mean X (filter (\<lambda>f. idx ! f = i) [0..<length idx])"
    by (rule select_columns_mean_cong [OF assms(1) _ assms(2,3,4)]) simp
  show ?case
    by (simp add: ic s assms(1) Cons.IH split: sum.splits)
qed

lemma fill_image_error:
  "fill_image X px idx ics img = Inl e \<Longrightarrow> e = IndexError"
proof (induction ics arbitrary: img)
  case Nil
  then show ?case by simp
next
  case (Cons ic ics)
  obtain i c where ic: "ic = (i, c)" by (cases ic)
  show ?case
    using Cons.prems Cons.IH
    by (auto simp: ic select_columns_mean_def set_pixel_def np_index_def
        split: sum.splits if_splits)
qed

lemma fill_image_raises:
  assumes "(i, c) \<in> set ics" and "f < length idx" and "idx ! f = i" and "ncols X \<le> f"
  shows "\<exists>e. fill_image X px idx ics img = Inl e"
  using assms(1)
proof (induction ics arbitrary: img)
  case Nil
  then show ?case by simp
next
  case (Cons ic ics)
  obtain i' c' where ic: "ic = (i', c')" by (cases ic)
  show ?case
  proof (cases "ic = (i, c)")
    case True
    have "f \<in> set (filter (\<lambda>f. idx ! f = i) [0..<length idx])"
      using assms(2,3) by simp
    then have "list_ex (\<lambda>f. ncols X \<le> f) (filter (\<lambda>f. idx ! f = i) [0..<length idx])"
      using assms(4) unfolding list_ex_iff by blast
    then have "select_columns_mean X (filter (\<lambda>f. idx ! f = i) [0..<length idx]) = Inl IndexError"
      by (simp only: select_columns_mean_def if_True)
    then show ?thesis using True by simp
  next
    case False
    then have "(i, c) \<in> set ics" using Cons.prems by simp
    then have "\<exists>e. fill_image X px idx ics img' = Inl e" for img'
      by (rule Cons.IH)
    then show ?thesis
      by (simp add: ic split: sum.splits)
  qed
qed

lemma length_takeWhile_neq:
  "x \<in> set xs \<Longrightarrow> length (takeWhile (\<lambda>u. u \<noteq> x) xs) < length xs
      \<and> xs ! length (takeWhile (\<lambda>u. u \<noteq> x) xs) = x"
  by (induction xs) auto

lemma np_unique_rows_inverse:
  assumes "np_unique_rows a = (unq, idx)" and "f < length a"
  shows "length idx = length a \<and> idx ! f < length unq \<and> unq ! (idx ! f) = a ! f"
proof -
  have u: "unq = sort (remdups a)" and i: "idx = map (\<lambda>c. length (takeWhile (\<lambda>u. u \<noteq> c) unq)) a"
    using assms(1) by (auto simp: np_unique_rows_def Let_def)
  have "a ! f \<in> set unq" using assms(2) by (simp add: u)
  then show ?thesis
    using length_takeWhile_neq [of "a ! f" unq] assms(2) by (simp add: i)
qed

text \<open>
  C7, amended. \<open>transform\<close> makes no check of the number of feature columns. It reads the
  first \<open>n\<close> columns only, \<open>n\<close> being the length of the stored mapping (the feature count at fit
  time): two inputs with the same number of samples and at least \<open>n\<close> columns that agree on
  the first \<open>n\<close> columns have the same result, so surplus columns are ignored. An input with
  fewer than \<open>n\<close> columns raises IndexError, the error of indexing a column that does not
  exist; no message about an expected shape is produced.
\<close>

theorem transform_without_feature_count_check:
  "(nrows X' = nrows X \<and> length (it_coords t) \<le> ncols X \<and> length (it_coords t) \<le> ncols X'
      \<and> (\<forall>s < nrows X. \<forall>f < length (it_coords t).
             elems X' ! (s * ncols X' + f) = elems X ! (s * ncols X + f))
     \<longrightarrow> transform t X' img_format empty_value = transform t X img_format empty_value)
   \<and> (ncols X < length (it_coords t) \<longrightarrow> transform t X img_format empty_value = Inl IndexError)"
proof (intro conjI impI)
  obtain unq idx where ui: "np_unique_rows (it_coords t) = (unq, idx)"
    by (cases "np_unique_rows (it_coords t)")
  obtain h w where hw: "it_pixels t = (h, w)" by (cases "it_pixels t")
  have len: "length idx = length (it_coords t)"
    using ui by (auto simp: np_unique_rows_def Let_def)
  {
    assume a: "nrows X' = nrows X \<and> length (it_coords t) \<le> ncols X \<and> length (it_coords t) \<le> ncols X'
      \<and> (\<forall>s < nrows X. \<forall>f < length (it_coords t).
             elems X' ! (s * ncols X' + f) = elems X ! (s * ncols X + f))"
    have "fill_image X' (h, w) idx ics img = fill_image X (h, w) idx ics img" for ics img
      using a by (intro fill_image_cong) (simp_all add: len)
    moreover have "nrows X' = nrows X" using a by simp
    ultimately show "transform t X' img_format empty_value = transform t X img_format empty_value"
      by (simp add: transform_def ui hw cong: sum.case_cong)
  }
  {
    assume b: "ncols X < length (it_coords t)"
    define f where "f = length (it_coords t) - 1"
    have f: "f < length (it_coords t)" "ncols X \<le> f"
      using b by (simp_all add: f_def)
    have i: "idx ! f < length unq" "unq ! (idx ! f) = it_coords t ! f"
      using np_unique_rows_inverse [OF ui f(1)] by simp_all
    have m: "(idx ! f, it_coords t ! f) \<in> set (enumerate 0 unq)"
      using i by (simp add: in_set_enumerate_eq)
    have "\<exists>e. fill_image X (h, w) idx (enumerate 0 unq) img = Inl e" for img
      using fill_image_raises [OF m _ refl f(2)] f(1) len by simp
    then have "fill_image X (h, w) idx (enumerate 0 unq) img = Inl IndexError" for img
      using fill_image_error by blast
    then show "transform t X img_format empty_value = Inl IndexError"
      by (simp add: transform_def ui hw)
  }
qed

theorem transform_without_feature_count_check_witness:
  "nrows \<lparr>nrows = 1, ncols = 3, elems = [5, 7, 9 :: real]\<rparr> = nrows \<lparr>nrows = 1, ncols = 2, elems = [5, 7 :: real]\<rparr>
   \<and> [5, 7, 9 :: real] ! (0 * 3 + 0) = [5, 7] ! (0 * 2 + 0)
   \<and> [5, 7, 9 :: real] ! (0 * 3 + 1) = [5, 7] ! (0 * 2 + 1)
   \<and> transform \<lparr>it_fe = (), it_dm = Binning, it_pixels = (1, 2), it_xrot = [(0, 0), (1, 1)],
                 it_coords = [(0, 0), (0, 1)]\<rparr>
        \<lparr>nrows = 1, ncols = 3, elems = [5, 7, 9]\<rparr> ''scalar'' (Some 0)
       = Inr \<lparr>shape = [1, 1, 2], data = [Some 5, Some 7]\<rparr>
   \<and> transform \<lparr>it_fe = (), it_dm = Binning, it_pixels = (1, 2), it_xrot = [(0, 0), (1, 1)],
                 it_coords = [(0, 0), (0, 1)]\<rparr>
        \<lparr>nrows = 1, ncols = 1, elems = [5]\<rparr> ''scalar'' (Some 0)
       = Inl IndexError"
proof -
  let ?t = "\<lparr>it_fe = (), it_dm = Binning, it_pixels = (1, 2), it_xrot = [(0, 0), (1, 1)],
                 it_coords = [(0, 0), (0, 1)]\<rparr>"
  let ?X = "\<lparr>nrows = 1, ncols = 2, elems = [5, 7 :: real]\<rparr>"
  let ?X' = "\<lparr>nrows = 1, ncols = 3, elems = [5, 7, 9 :: real]\<rparr>"
  let ?Y = "\<lparr>nrows = 1, ncols = 1, elems = [5 :: real]\<rparr>"
  have e: "\<forall>s < 1. \<forall>f < 2. [5, 7, 9 :: real] ! (s * 3 + f) = [5, 7] ! (s * 2 + f)"
    by (simp add: less_Suc_eq eval_nat_numeral)
  have x: "transform ?t ?X ''scalar'' (Some 0) = Inr \<lparr>shape = [1, 1, 2], data = [Some 5, Some 7]\<rparr>"
    by (simp add: transform_def np_unique_rows_def select_columns_mean_def np_mean_def
        set_pixel_def np_index_def enumerate_eq_zip upt_conv_Cons numeral_2_eq_2)
  from transform_without_feature_count_check [of ?X' ?X ?t "''scalar''" "Some 0"]
       transform_without_feature_count_check [of ?X' ?Y ?t "''scalar''" "Some 0"] e x
  show ?thesis by simp
qed

end
